theory Spec2Isabelle
  imports Complex_Main
begin

section \<open>The batch program \<open>batch_local_velocity.py\<close>\<close>

text \<open>
  The script reads its settings from module-level variables, creates the result file
  \<open>local_velocity_results.csv\<close> with a header row, and then loops over the tif stacks
  found under the input path: it loads the stack, determines a halfspan, calls
  \<open>local_velocity_analysis\<close>, saves the returned figure and appends one row per entry of
  the returned \<open>velocities\<close> array to the result file.

  Python floats are idealised as \<open>real\<close>, Python ints as \<open>int\<close>. The text written by
  \<open>csv.writer\<close> is kept as rows of cells; \<open>print\<close> calls leave no mark on the model.
  Failures of the file system (a missing directory, a full disk) are outside the model;
  every exception the statements of the script themselves can raise is a branch of it.
\<close>

subsection \<open>Data\<close>

text \<open>A decoded stack: frame, then row, then column.\<close>

type_synonym image = "real list list list"

text \<open>One path found by \<open>inpath.glob("**/*.tif")\<close>, with what \<open>io.imread\<close> reads from it.\<close>

record tif_file =
  stem :: string
  pixels :: image

text \<open>The settings of lines 32 to 44 of the script.\<close>

record settings =
  nmperpix :: "real option"
  frpermin :: "real option"
  frames_to_analyse :: int
  halfspan :: "int option"
  sampling_width :: real
  edge :: int
  bins_wheel :: int
  binwidth_sum :: real
  kernel_size_general :: int
  kernel_size_flow :: int

definition script_settings :: settings where
  "script_settings =
     \<lparr>nmperpix = None, frpermin = None, frames_to_analyse = 10, halfspan = None,
      sampling_width = 1 / 4, edge = 30, bins_wheel = 50, binwidth_sum = 5 / 2,
      kernel_size_general = 20, kernel_size_flow = 50\<rparr>"

datatype error =
    NameError string
  | ZeroDivisionError
  | IndexError
  | AnalysisError string

datatype figure = Figure nat

text \<open>The positional and keyword arguments of the call in lines 110 to 122.\<close>

record analysis_args =
  arg_stack :: image
  arg_frames_to_analyse :: int
  arg_halfspan :: int
  arg_sampling_width :: real
  arg_edge :: int
  arg_bins_wheel :: int
  arg_binwidth_sum :: real
  arg_kernel_size_general :: int
  arg_kernel_size_flow :: int
  arg_look_ahead :: int
  arg_demo :: bool

text \<open>
  The members of the returned tuple that the script reads. \<open>wheels\<close>, \<open>ax_wheel\<close> and
  \<open>ax_sum\<close> are unpacked in lines 95 to 109 and never used.
\<close>

record analysis_result =
  velocities :: "real list"
  forward_wavevector_x :: "real list"
  forward_wavevector_y :: "real list"
  crests_x :: "real list"
  crests_y :: "real list"
  framenr :: "real list"
  max_x1 :: "real list"
  max_y1 :: "real list"
  max_x2 :: "real list"
  max_y2 :: "real list"
  fig :: figure

text \<open>
  Modelled from the spec: the package \<open>min_analysis_tools\<close> (\<open>get_auto_halfspan\<close>,
  \<open>local_velocity_analysis\<close>) is imported by the script and is not part of the sources at
  hand. Following sections 4.1 and 6 of the specification, the auto-halfspan heuristic is an
  opaque function from a stack and a frame count to an integer, and the analysis is a
  function of its arguments that returns the result sequences or raises. \<open>py_str\<close> is
  Python's rendering of a float inside an f-string.
\<close>

record collaborators =
  get_auto_halfspan :: "image \<Rightarrow> int \<Rightarrow> int"
  local_velocity_analysis :: "analysis_args \<Rightarrow> error + analysis_result"
  py_str :: "real \<Rightarrow> string"

datatype cell = Str string | Num real

type_synonym row = "cell list"

text \<open>What the program does to the outside, in the order it does it.\<close>

datatype event =
    CsvCreate row
  | Imread string
  | Analyse analysis_args
  | SaveFig string figure
  | CsvAppend row

text \<open>
  The result file (\<open>None\<close>: it does not exist), the saved figures by file name, the
  module-level variable \<open>halfspan_tmp\<close> (\<open>None\<close>: not bound), and the events so far.
\<close>

record world =
  csv_file :: "row list option"
  figures :: "string \<rightharpoonup> figure"
  halfspan_tmp :: "int option"
  trace :: "event list"

subsection \<open>Lines 56 to 79: unit, factor, header\<close>

definition and_then :: "error + 'a \<Rightarrow> ('a \<Rightarrow> error + 'b) \<Rightarrow> error + 'b" where
  "and_then m f = (case m of Inl e \<Rightarrow> Inl e | Inr x \<Rightarrow> f x)"

definition py_truediv :: "real \<Rightarrow> real \<Rightarrow> error + real" where
  "py_truediv a b = (if b = 0 then Inl ZeroDivisionError else Inr (a / b))"

definition unit_and_factor :: "settings \<Rightarrow> error + (string \<times> real)" where
  "unit_and_factor cfg =
     (case nmperpix cfg of
        None \<Rightarrow> Inr (''pixels/frame'', 1)
      | Some nm \<Rightarrow>
          (case frpermin cfg of
             None \<Rightarrow> Inr (''pixels/frame'', 1)
           | Some fr \<Rightarrow>
               and_then (py_truediv 60 fr) (\<lambda>d.
               and_then (py_truediv nm d) (\<lambda>factor.
               Inr (''nm/s'', factor)))))"

definition header :: "collaborators \<Rightarrow> settings \<Rightarrow> string \<Rightarrow> row" where
  "header env cfg unit =
     [Str ''filename'',
      Str (''velocities ('' @ unit @ '')''),
      Str ''forward_wavevector_x'',
      Str ''forward_wavevector_y'',
      Str ''crests_x (pixel position)'',
      Str ''crests_y (pixel position)'',
      Str ''frame_nr'',
      Str (''trace_max_1 ('' @ py_str env (sampling_width cfg) @ ''*pixels)''),
      Str ''intensity_max_1'',
      Str (''trace_max_2 ('' @ py_str env (sampling_width cfg) @ ''*pixels)''),
      Str ''intensity_max_2'']"

definition emit :: "event \<Rightarrow> world \<Rightarrow> world" where
  "emit ev w = w\<lparr>trace := trace w @ [ev]\<rparr>"

text \<open>\<open>open(csv_file, "w")\<close> and \<open>writer.writerow(header)\<close>: any old content is lost.\<close>

definition create_csv :: "row \<Rightarrow> world \<Rightarrow> world" where
  "create_csv hdr w = emit (CsvCreate hdr) (w\<lparr>csv_file := Some [hdr]\<rparr>)"

subsection \<open>Lines 84 to 146: the loop over the stacks\<close>

text \<open>Lines 91 to 93: \<open>halfspan_tmp\<close> is assigned only when \<open>halfspan\<close> is \<open>None\<close>.\<close>

definition bind_halfspan_tmp :: "collaborators \<Rightarrow> settings \<Rightarrow> image \<Rightarrow> world \<Rightarrow> world" where
  "bind_halfspan_tmp env cfg Min_st w =
     (case halfspan cfg of
        None \<Rightarrow> w\<lparr>halfspan_tmp := Some (get_auto_halfspan env Min_st (frames_to_analyse cfg))\<rparr>
      | Some h \<Rightarrow> w)"

definition call_args :: "settings \<Rightarrow> image \<Rightarrow> int \<Rightarrow> analysis_args" where
  "call_args cfg Min_st h =
     \<lparr>arg_stack = Min_st,
      arg_frames_to_analyse = frames_to_analyse cfg,
      arg_halfspan = h,
      arg_sampling_width = sampling_width cfg,
      arg_edge = edge cfg,
      arg_bins_wheel = bins_wheel cfg,
      arg_binwidth_sum = binwidth_sum cfg,
      arg_kernel_size_general = kernel_size_general cfg,
      arg_kernel_size_flow = kernel_size_flow cfg,
      arg_look_ahead = 1,
      arg_demo = True\<rparr>"

definition savename :: "string \<Rightarrow> string" where
  "savename stackname = stackname @ ''_velocity_wheel.png''"

definition savefig :: "string \<Rightarrow> figure \<Rightarrow> world \<Rightarrow> world" where
  "savefig name f w = emit (SaveFig name f) (w\<lparr>figures := (figures w)(name \<mapsto> f)\<rparr>)"

text \<open>\<open>xs[n]\<close> for \<open>n\<close> from a \<open>range\<close>: an index past the end raises.\<close>

definition item :: "'a list \<Rightarrow> nat \<Rightarrow> error + 'a" where
  "item xs n = (if n < length xs then Inr (xs ! n) else Inl IndexError)"

text \<open>The list built in lines 133 to 145, its elements evaluated from first to last.\<close>

definition data_row :: "string \<Rightarrow> real \<Rightarrow> analysis_result \<Rightarrow> nat \<Rightarrow> error + row" where
  "data_row stackname factor r n =
     and_then (item (velocities r) n) (\<lambda>v.
     and_then (item (forward_wavevector_x r) n) (\<lambda>fx.
     and_then (item (forward_wavevector_y r) n) (\<lambda>fy.
     and_then (item (crests_x r) n) (\<lambda>cx.
     and_then (item (crests_y r) n) (\<lambda>cy.
     and_then (item (framenr r) n) (\<lambda>fr.
     and_then (item (max_x1 r) n) (\<lambda>x1.
     and_then (item (max_y1 r) n) (\<lambda>y1.
     and_then (item (max_x2 r) n) (\<lambda>x2.
     and_then (item (max_y2 r) n) (\<lambda>y2.
     Inr [Str stackname, Num (v * factor), Num fx, Num fy, Num cx, Num cy, Num fr,
          Num x1, Num y1, Num x2, Num y2]))))))))))"

text \<open>\<open>open(csv_file, "a")\<close> creates a missing file and keeps an existing one.\<close>

definition open_append :: "world \<Rightarrow> world" where
  "open_append w = (case csv_file w of None \<Rightarrow> w\<lparr>csv_file := Some []\<rparr> | Some rows \<Rightarrow> w)"

definition writerow :: "row \<Rightarrow> world \<Rightarrow> world" where
  "writerow rw w =
     emit (CsvAppend rw)
       (w\<lparr>csv_file := Some ((case csv_file w of None \<Rightarrow> [] | Some rows \<Rightarrow> rows) @ [rw])\<rparr>)"

text \<open>
  The loop of lines 131 to 146 over the indices of \<open>range(velocities.size)\<close>. A row that
  was written stays in the file when a later index raises.
\<close>

fun write_rows ::
  "string \<Rightarrow> real \<Rightarrow> analysis_result \<Rightarrow> nat list \<Rightarrow> world \<Rightarrow> error option \<times> world" where
  "write_rows stackname factor r [] w = (None, w)"
| "write_rows stackname factor r (n # ns) w =
     (case data_row stackname factor r n of
        Inl e \<Rightarrow> (Some e, w)
      | Inr rw \<Rightarrow> write_rows stackname factor r ns (writerow rw w))"

text \<open>
  One pass through the loop body. Reading the unbound name \<open>halfspan_tmp\<close> while the
  arguments of the call are evaluated raises \<open>NameError\<close>; an exception of the analysis
  leaves the loop, since the script has no \<open>try\<close>.
\<close>

definition process_stack ::
  "collaborators \<Rightarrow> settings \<Rightarrow> real \<Rightarrow> tif_file \<Rightarrow> world \<Rightarrow> error option \<times> world" where
  "process_stack env cfg factor stack w0 =
     (let w1 = emit (Imread (stem stack)) w0;
          Min_st = pixels stack;
          stackname = stem stack;
          w2 = bind_halfspan_tmp env cfg Min_st w1
      in case halfspan_tmp w2 of
           None \<Rightarrow> (Some (NameError ''halfspan_tmp''), w2)
         | Some h \<Rightarrow>
             (let args = call_args cfg Min_st h;
                  w3 = emit (Analyse args) w2
              in case local_velocity_analysis env args of
                   Inl e \<Rightarrow> (Some e, w3)
                 | Inr r \<Rightarrow>
                     write_rows stackname factor r [0..<length (velocities r)]
                       (open_append (savefig (savename stackname) (fig r) w3))))"

fun stack_loop ::
  "collaborators \<Rightarrow> settings \<Rightarrow> real \<Rightarrow> tif_file list \<Rightarrow> world \<Rightarrow> error option \<times> world" where
  "stack_loop env cfg factor [] w = (None, w)"
| "stack_loop env cfg factor (stack # stacks) w =
     (case process_stack env cfg factor stack w of
        (Some e, w') \<Rightarrow> (Some e, w')
      | (None, w') \<Rightarrow> stack_loop env cfg factor stacks w')"

text \<open>
  A fresh interpreter: no name is bound and nothing has happened yet; the disk holds
  whatever earlier runs left.
\<close>

definition start :: "row list option \<Rightarrow> (string \<rightharpoonup> figure) \<Rightarrow> world" where
  "start old_csv old_figs =
     \<lparr>csv_file = old_csv, figures = old_figs, halfspan_tmp = None, trace = []\<rparr>"

text \<open>The whole script, on the stacks in the order \<open>glob\<close> yields them.\<close>

definition batch_local_velocity ::
  "collaborators \<Rightarrow> settings \<Rightarrow> tif_file list \<Rightarrow> world \<Rightarrow> error option \<times> world" where
  "batch_local_velocity env cfg stacks w =
     (case unit_and_factor cfg of
        Inl e \<Rightarrow> (Some e, w)
      | Inr (unit, factor) \<Rightarrow>
          stack_loop env cfg factor stacks (create_csv (header env cfg unit) w))"

section \<open>Observations on a run\<close>

text \<open>
  The functions of this section describe what a run leaves behind: the cells of a row whose
  ten accesses are in range, the rows a writing loop gets to before an access raises, the
  events and the exception of one pass through the loop body, and those of the whole loop.
  The lemmas below show that the program above produces exactly these.
\<close>

definition row_cells :: "string \<Rightarrow> real \<Rightarrow> analysis_result \<Rightarrow> nat \<Rightarrow> row" where
  "row_cells stackname factor r n =
     [Str stackname, Num (velocities r ! n * factor), Num (forward_wavevector_x r ! n),
      Num (forward_wavevector_y r ! n), Num (crests_x r ! n), Num (crests_y r ! n),
      Num (framenr r ! n), Num (max_x1 r ! n), Num (max_y1 r ! n), Num (max_x2 r ! n),
      Num (max_y2 r ! n)]"

definition in_range :: "analysis_result \<Rightarrow> nat \<Rightarrow> bool" where
  "in_range r n \<longleftrightarrow>
     n < length (velocities r) \<and> n < length (forward_wavevector_x r) \<and>
     n < length (forward_wavevector_y r) \<and> n < length (crests_x r) \<and>
     n < length (crests_y r) \<and> n < length (framenr r) \<and> n < length (max_x1 r) \<and>
     n < length (max_y1 r) \<and> n < length (max_x2 r) \<and> n < length (max_y2 r)"

fun rows_written :: "string \<Rightarrow> real \<Rightarrow> analysis_result \<Rightarrow> nat list \<Rightarrow> row list" where
  "rows_written name f r [] = []"
| "rows_written name f r (n # ns) =
     (if in_range r n then row_cells name f r n # rows_written name f r ns else [])"

text \<open>The binding of \<open>halfspan_tmp\<close> after lines 91 to 93, from the binding before.\<close>

definition tmp_after :: "collaborators \<Rightarrow> settings \<Rightarrow> tif_file \<Rightarrow> int option \<Rightarrow> int option" where
  "tmp_after env cfg s tmp =
     (case halfspan cfg of
        None \<Rightarrow> Some (get_auto_halfspan env (pixels s) (frames_to_analyse cfg))
      | Some h \<Rightarrow> tmp)"

definition pass_events ::
  "collaborators \<Rightarrow> settings \<Rightarrow> real \<Rightarrow> tif_file \<Rightarrow> int option \<Rightarrow> event list" where
  "pass_events env cfg f s tmp =
     Imread (stem s) #
     (case tmp_after env cfg s tmp of
        None \<Rightarrow> []
      | Some h \<Rightarrow>
          Analyse (call_args cfg (pixels s) h) #
          (case local_velocity_analysis env (call_args cfg (pixels s) h) of
             Inl e \<Rightarrow> []
           | Inr r \<Rightarrow>
               SaveFig (savename (stem s)) (fig r) #
               map CsvAppend (rows_written (stem s) f r [0..<length (velocities r)])))"

definition pass_error ::
  "collaborators \<Rightarrow> settings \<Rightarrow> tif_file \<Rightarrow> int option \<Rightarrow> error option" where
  "pass_error env cfg s tmp =
     (case tmp_after env cfg s tmp of
        None \<Rightarrow> Some (NameError ''halfspan_tmp'')
      | Some h \<Rightarrow>
          (case local_velocity_analysis env (call_args cfg (pixels s) h) of
             Inl e \<Rightarrow> Some e
           | Inr r \<Rightarrow>
               if \<forall>n\<in>set [0..<length (velocities r)]. in_range r n then None
               else Some IndexError))"

text \<open>The rows that a list of events appends to the result file, in their order.\<close>

fun appended :: "event list \<Rightarrow> row list" where
  "appended [] = []"
| "appended (CsvAppend rw # evs) = rw # appended evs"
| "appended (ev # evs) = appended evs"

fun loop_events ::
  "collaborators \<Rightarrow> settings \<Rightarrow> real \<Rightarrow> tif_file list \<Rightarrow> int option \<Rightarrow> event list" where
  "loop_events env cfg f [] tmp = []"
| "loop_events env cfg f (s # ss) tmp =
     pass_events env cfg f s tmp @
     (case pass_error env cfg s tmp of
        None \<Rightarrow> loop_events env cfg f ss (tmp_after env cfg s tmp)
      | Some e \<Rightarrow> [])"

fun loop_error ::
  "collaborators \<Rightarrow> settings \<Rightarrow> tif_file list \<Rightarrow> int option \<Rightarrow> error option" where
  "loop_error env cfg [] tmp = None"
| "loop_error env cfg (s # ss) tmp =
     (case pass_error env cfg s tmp of
        None \<Rightarrow> loop_error env cfg ss (tmp_after env cfg s tmp)
      | Some e \<Rightarrow> Some e)"

text \<open>
  The arguments of the call when the halfspan is determined automatically, and the events
  of a pass in the order of lines 87 to 146: the stack is loaded, the analysis is called,
  the figure is saved, and row \<open>n\<close> is appended for \<open>n = 0, 1, ...\<close> up to the size of
  \<open>velocities\<close>.
\<close>

definition auto_args :: "collaborators \<Rightarrow> settings \<Rightarrow> tif_file \<Rightarrow> analysis_args" where
  "auto_args env cfg s =
     call_args cfg (pixels s) (get_auto_halfspan env (pixels s) (frames_to_analyse cfg))"

definition stack_events ::
  "collaborators \<Rightarrow> settings \<Rightarrow> real \<Rightarrow> tif_file \<Rightarrow> event list" where
  "stack_events env cfg f s =
     (case local_velocity_analysis env (auto_args env cfg s) of
        Inl e \<Rightarrow> [Imread (stem s), Analyse (auto_args env cfg s)]
      | Inr r \<Rightarrow>
          [Imread (stem s), Analyse (auto_args env cfg s), SaveFig (savename (stem s)) (fig r)] @
          map (\<lambda>n. CsvAppend (row_cells (stem s) f r n)) [0..<length (velocities r)])"

fun is_Imread :: "event \<Rightarrow> bool" where
  "is_Imread (Imread name) = True"
| "is_Imread ev = False"

fun is_CsvCreate :: "event \<Rightarrow> bool" where
  "is_CsvCreate (CsvCreate hdr) = True"
| "is_CsvCreate ev = False"

fun is_Num :: "cell \<Rightarrow> bool" where
  "is_Num (Num x) = True"
| "is_Num c = False"

text \<open>A data row: the name of a stack, then ten numbers.\<close>

fun is_data_row :: "row \<Rightarrow> bool" where
  "is_data_row (Str name # cells) = (length cells = 10 \<and> list_all is_Num cells)"
| "is_data_row rw = False"

section \<open>Concrete stacks and collaborators\<close>

text \<open>
  Stand-ins on which the program can be run: an analysis that refuses a stack with fewer
  frames than \<open>frames_to_analyse\<close> and otherwise returns two records, a constant
  auto-halfspan, a stack of ten frames and a stack of one frame.
\<close>

definition two_records :: analysis_result where
  "two_records =
     \<lparr>velocities = [2, 3], forward_wavevector_x = [1, 0], forward_wavevector_y = [0, 1],
      crests_x = [12, 40], crests_y = [7, 9], framenr = [0, 1],
      max_x1 = [4, 5], max_y1 = [100, 90], max_x2 = [12, 17], max_y2 = [95, 80],
      fig = Figure 0\<rparr>"

definition demo_analysis :: "analysis_args \<Rightarrow> error + analysis_result" where
  "demo_analysis a =
     (if int (length (arg_stack a)) < arg_frames_to_analyse a
      then Inl (AnalysisError ''frames_to_analyse exceeds stack length'')
      else Inr two_records)"

definition demo_env :: collaborators where
  "demo_env =
     \<lparr>get_auto_halfspan = (\<lambda>Min_st n. 10),
      local_velocity_analysis = demo_analysis,
      py_str = (\<lambda>x. ''0.25'')\<rparr>"

definition wave_stack :: tif_file where
  "wave_stack = \<lparr>stem = ''wave'', pixels = replicate 10 [[1, 2], [2, 1]]\<rparr>"

definition short_stack :: tif_file where
  "short_stack = \<lparr>stem = ''short'', pixels = [[[1, 2], [2, 1]]]\<rparr>"

section \<open>The program produces the observations\<close>

lemmas model_defs =
  batch_local_velocity_def unit_and_factor_def header_def create_csv_def emit_def
  process_stack_def bind_halfspan_tmp_def call_args_def savename_def savefig_def
  open_append_def writerow_def data_row_def item_def start_def py_truediv_def Let_def

lemmas demo_defs =
  demo_env_def demo_analysis_def two_records_def wave_stack_def short_stack_def
  script_settings_def

lemma and_then_Inr [simp]: "and_then (Inr x) f = f x"
  by (simp add: and_then_def)

lemma and_then_Inl [simp]: "and_then (Inl e) f = Inl e"
  by (simp add: and_then_def)

lemma data_row_in_range: "in_range r n \<Longrightarrow> data_row name f r n = Inr (row_cells name f r n)"
  by (simp add: data_row_def item_def in_range_def row_cells_def)

lemma data_row_out_of_range: "\<not> in_range r n \<Longrightarrow> data_row name f r n = Inl IndexError"
  by (auto simp add: data_row_def item_def in_range_def)

lemma data_row_cases:
  "data_row name f r n = (if in_range r n then Inr (row_cells name f r n) else Inl IndexError)"
  by (simp add: data_row_in_range data_row_out_of_range)

lemma write_rows_trace:
  "trace (snd (write_rows name f r ns w)) = trace w @ map CsvAppend (rows_written name f r ns)"
  by (induction ns arbitrary: w) (simp_all add: data_row_cases writerow_def emit_def)

lemma write_rows_csv:
  "csv_file w = Some old \<Longrightarrow>
   csv_file (snd (write_rows name f r ns w)) = Some (old @ rows_written name f r ns)"
  by (induction ns arbitrary: w old) (simp_all add: data_row_cases writerow_def emit_def)

lemma write_rows_figures: "figures (snd (write_rows name f r ns w)) = figures w"
  by (induction ns arbitrary: w) (simp_all add: data_row_cases writerow_def emit_def)

lemma write_rows_halfspan_tmp: "halfspan_tmp (snd (write_rows name f r ns w)) = halfspan_tmp w"
  by (induction ns arbitrary: w) (simp_all add: data_row_cases writerow_def emit_def)

lemma write_rows_error:
  "fst (write_rows name f r ns w) = (if \<forall>n\<in>set ns. in_range r n then None else Some IndexError)"
  by (induction ns arbitrary: w) (simp_all add: data_row_cases)

lemma rows_written_all: "\<forall>n\<in>set ns. in_range r n \<Longrightarrow> rows_written name f r ns = map (row_cells name f r) ns"
  by (induction ns) simp_all

lemma appended_append [simp]: "appended (xs @ ys) = appended xs @ appended ys"
  by (induction xs rule: appended.induct) simp_all

lemma appended_map_CsvAppend [simp]: "appended (map CsvAppend rws) = rws"
  by (induction rws) simp_all

lemma process_stack_trace:
  "trace (snd (process_stack env cfg f s w)) = trace w @ pass_events env cfg f s (halfspan_tmp w)"
  by (simp add: process_stack_def pass_events_def tmp_after_def bind_halfspan_tmp_def Let_def
      emit_def savefig_def open_append_def write_rows_trace
      split: option.split sum.split)

lemma process_stack_error:
  "fst (process_stack env cfg f s w) = pass_error env cfg s (halfspan_tmp w)"
  by (simp add: process_stack_def pass_error_def tmp_after_def bind_halfspan_tmp_def Let_def
      emit_def write_rows_error
      split: option.split sum.split)

lemma process_stack_halfspan_tmp:
  "halfspan_tmp (snd (process_stack env cfg f s w)) = tmp_after env cfg s (halfspan_tmp w)"
  by (simp add: process_stack_def tmp_after_def bind_halfspan_tmp_def Let_def
      emit_def savefig_def open_append_def write_rows_halfspan_tmp
      split: option.split sum.split)

lemma process_stack_csv:
  "csv_file w = Some old \<Longrightarrow>
   csv_file (snd (process_stack env cfg f s w)) =
     Some (old @ appended (pass_events env cfg f s (halfspan_tmp w)))"
  by (simp add: process_stack_def pass_events_def tmp_after_def bind_halfspan_tmp_def Let_def
      emit_def savefig_def open_append_def write_rows_csv
      split: option.split sum.split)

lemma stack_loop_Cons:
  "stack_loop env cfg f (s # ss) w =
     (case fst (process_stack env cfg f s w) of
        Some e \<Rightarrow> (Some e, snd (process_stack env cfg f s w))
      | None \<Rightarrow> stack_loop env cfg f ss (snd (process_stack env cfg f s w)))"
  by (simp split: prod.split option.split)

lemma stack_loop_trace:
  "trace (snd (stack_loop env cfg f ss w)) = trace w @ loop_events env cfg f ss (halfspan_tmp w)"
proof (induction ss arbitrary: w)
  case Nil
  show ?case by simp
next
  case (Cons s ss)
  show ?case
    by (simp only: stack_loop_Cons loop_events.simps process_stack_error)
       (simp add: Cons.IH process_stack_trace process_stack_halfspan_tmp split: option.split)
qed

lemma stack_loop_error:
  "fst (stack_loop env cfg f ss w) = loop_error env cfg ss (halfspan_tmp w)"
proof (induction ss arbitrary: w)
  case Nil
  show ?case by simp
next
  case (Cons s ss)
  show ?case
    by (simp only: stack_loop_Cons loop_error.simps process_stack_error)
       (simp add: Cons.IH process_stack_halfspan_tmp split: option.split)
qed

lemma stack_loop_csv:
  "csv_file w = Some old \<Longrightarrow>
   csv_file (snd (stack_loop env cfg f ss w)) =
     Some (old @ appended (loop_events env cfg f ss (halfspan_tmp w)))"
proof (induction ss arbitrary: w old)
  case Nil
  then show ?case by simp
next
  case (Cons s ss)
  have step: "csv_file (snd (process_stack env cfg f s w)) =
      Some (old @ appended (pass_events env cfg f s (halfspan_tmp w)))"
    using Cons.prems by (rule process_stack_csv)
  show ?case
    by (simp only: stack_loop_Cons loop_events.simps process_stack_error)
       (simp add: Cons.IH [OF step] step process_stack_halfspan_tmp split: option.split)
qed

lemma batch_trace:
  "unit_and_factor cfg = Inr (u, f) \<Longrightarrow>
   trace (snd (batch_local_velocity env cfg stacks (start old_csv old_figs))) =
     CsvCreate (header env cfg u) # loop_events env cfg f stacks None"
  by (simp add: batch_local_velocity_def stack_loop_trace create_csv_def emit_def start_def)

lemma batch_error:
  "unit_and_factor cfg = Inr (u, f) \<Longrightarrow>
   fst (batch_local_velocity env cfg stacks (start old_csv old_figs)) =
     loop_error env cfg stacks None"
  by (simp add: batch_local_velocity_def stack_loop_error create_csv_def emit_def start_def)

lemma batch_csv:
  "unit_and_factor cfg = Inr (u, f) \<Longrightarrow>
   csv_file (snd (batch_local_velocity env cfg stacks (start old_csv old_figs))) =
     Some (header env cfg u # appended (loop_events env cfg f stacks None))"
proof -
  assume uf: "unit_and_factor cfg = Inr (u, f)"
  have c: "csv_file (create_csv (header env cfg u) (start old_csv old_figs)) = Some [header env cfg u]"
    by (simp add: create_csv_def emit_def)
  have t: "halfspan_tmp (create_csv (header env cfg u) (start old_csv old_figs)) = None"
    by (simp add: create_csv_def emit_def start_def)
  show ?thesis
    using stack_loop_csv [OF c, of env cfg f stacks] by (simp add: batch_local_velocity_def uf t)
qed

lemma batch_failed_factor:
  "unit_and_factor cfg = Inl e \<Longrightarrow>
   batch_local_velocity env cfg stacks w = (Some e, w)"
  by (simp add: batch_local_velocity_def)

lemma pass_events_shape:
  "\<exists>evs. pass_events env cfg f s tmp = Imread (stem s) # evs \<and> \<not> list_ex is_Imread evs"
  by (auto simp add: pass_events_def list_ex_iff split: option.split sum.split)

lemma pass_events_complete:
  assumes "pass_error env cfg s tmp = None" and "halfspan cfg = None"
  shows "pass_events env cfg f s tmp = stack_events env cfg f s"
  using assms
  by (auto simp add: pass_error_def pass_events_def stack_events_def tmp_after_def auto_args_def
      rows_written_all split: option.splits sum.splits if_splits)

lemma pass_error_unbound:
  "halfspan cfg = Some h \<Longrightarrow> pass_error env cfg s None = Some (NameError ''halfspan_tmp'')"
  by (simp add: pass_error_def tmp_after_def)

lemma loop_events_decomp:
  assumes "halfspan cfg = None \<or> tmp = None"
  shows "\<exists>k rest. k \<le> length ss \<and>
           loop_events env cfg f ss tmp = concat (map (stack_events env cfg f) (take k ss)) @ rest \<and>
           (\<forall>s\<in>set (take k ss). \<exists>r. local_velocity_analysis env (auto_args env cfg s) = Inr r) \<and>
           (loop_error env cfg ss tmp = None \<longrightarrow> k = length ss \<and> rest = []) \<and>
           (loop_error env cfg ss tmp \<noteq> None \<longrightarrow>
              k < length ss \<and>
              (\<exists>evs. rest = Imread (stem (ss ! k)) # evs \<and> \<not> list_ex is_Imread evs))"
  using assms
proof (induction ss arbitrary: tmp)
  case Nil
  show ?case by simp
next
  case (Cons s ss)
  show ?case
  proof (cases "pass_error env cfg s tmp")
    case (Some e)
    obtain evs where evs: "pass_events env cfg f s tmp = Imread (stem s) # evs"
      "\<not> list_ex is_Imread evs"
      using pass_events_shape by blast
    show ?thesis
      apply (rule exI [of _ 0])
      apply (rule exI [of _ "Imread (stem s) # evs"])
      using Some evs by simp
  next
    case None
    have hs: "halfspan cfg = None"
    proof (rule ccontr)
      assume "halfspan cfg \<noteq> None"
      then obtain h where h: "halfspan cfg = Some h" by auto
      with Cons.prems have "tmp = None" by simp
      with h None show False by (simp add: pass_error_unbound)
    qed
    have ok: "\<exists>r. local_velocity_analysis env (auto_args env cfg s) = Inr r"
      using None hs
      by (auto simp add: pass_error_def tmp_after_def auto_args_def split: sum.splits)
    from Cons.IH [of "tmp_after env cfg s tmp", OF disjI1 [OF hs]]
    obtain k rest where kr: "k \<le> length ss \<and>
      loop_events env cfg f ss (tmp_after env cfg s tmp) =
         concat (map (stack_events env cfg f) (take k ss)) @ rest \<and>
      (\<forall>s\<in>set (take k ss). \<exists>r. local_velocity_analysis env (auto_args env cfg s) = Inr r) \<and>
      (loop_error env cfg ss (tmp_after env cfg s tmp) = None \<longrightarrow> k = length ss \<and> rest = []) \<and>
      (loop_error env cfg ss (tmp_after env cfg s tmp) \<noteq> None \<longrightarrow>
              k < length ss \<and>
              (\<exists>evs. rest = Imread (stem (ss ! k)) # evs \<and> \<not> list_ex is_Imread evs))"
      by (elim exE)
    show ?thesis
      apply (rule exI [of _ "Suc k"])
      apply (rule exI [of _ rest])
      using None kr ok by (simp add: pass_events_complete [OF None hs])
  qed
qed

lemma appended_map_comp [simp]: "appended (map (CsvAppend \<circ> g) xs) = map g xs"
  by (induction xs) simp_all

lemma appended_map_fun [simp]: "appended (map (\<lambda>x. CsvAppend (g x)) xs) = map g xs"
  by (induction xs) simp_all

lemma uf_script: "unit_and_factor script_settings = Inr (''pixels/frame'', 1)"
  by (simp add: unit_and_factor_def script_settings_def)

lemma process_stack_completes:
  assumes ok: "process_stack env cfg factor s w = (None, w')"
  shows "\<exists>h r. halfspan_tmp w' = Some h \<and>
           local_velocity_analysis env (call_args cfg (pixels s) h) = Inr r \<and>
           (\<forall>n<length (velocities r). in_range r n)"
proof -
  have e: "pass_error env cfg s (halfspan_tmp w) = None"
    using process_stack_error [of env cfg factor s w] ok by simp
  have t: "halfspan_tmp w' = tmp_after env cfg s (halfspan_tmp w)"
    using process_stack_halfspan_tmp [of env cfg factor s w] ok by simp
  show ?thesis
    using e t by (auto simp add: pass_error_def split: option.splits sum.splits if_splits)
qed

section \<open>The halfspan handed to the analysis\<close>

text \<open>
  With \<open>halfspan = None\<close> every call of the analysis gets the value of
  \<open>get_auto_halfspan(Min_st, frames_to_analyse)\<close> for the stack at hand.
\<close>

lemma auto_halfspan_is_passed:
  "halfspan cfg = None \<Longrightarrow> Analyse a \<in> set (pass_events env cfg f s tmp) \<Longrightarrow>
   arg_halfspan a = get_auto_halfspan env (pixels s) (frames_to_analyse cfg)"
  by (auto simp add: pass_events_def tmp_after_def call_args_def split: sum.splits)

text \<open>
  C1, where the code departs from the claim. The claim: the halfspan argument of the call is
  the user's \<open>halfspan\<close> when that setting is not \<open>None\<close>, and the call proceeds without
  error. The code: with the settings of the script and \<open>halfspan = 10\<close>, the first stack
  stops the run with \<open>NameError\<close> for \<open>halfspan_tmp\<close>, which only the \<open>None\<close> branch of
  lines 91 to 93 assigns; the analysis is never called, and the result file holds the
  header alone.
\<close>

theorem halfspan_setting_raises_NameError:
  "batch_local_velocity env (script_settings\<lparr>halfspan := Some 10\<rparr>) (s # ss)
     (start old_csv old_figs) =
   (Some (NameError ''halfspan_tmp''),
    \<lparr>csv_file = Some [header env (script_settings\<lparr>halfspan := Some 10\<rparr>) ''pixels/frame''],
     figures = old_figs,
     halfspan_tmp = None,
     trace = [CsvCreate (header env (script_settings\<lparr>halfspan := Some 10\<rparr>) ''pixels/frame''),
              Imread (stem s)]\<rparr>)"
  by (simp add: model_defs script_settings_def)

section \<open>The rows of a stack\<close>

text \<open>
  C2 as stated fails: a data row has eleven fields, not ten, and its first field is the
  name of the stack. On the stack \<open>wave\<close> with two records the file holds the header and
  two rows that start with \<open>wave\<close>; it is not the file of the two ten-field rows.
\<close>

theorem data_row_has_eleven_fields:
  "csv_file (snd (batch_local_velocity demo_env script_settings [wave_stack]
      (start None Map.empty))) =
     Some [header demo_env script_settings ''pixels/frame'',
           [Str ''wave'', Num 2, Num 1, Num 0, Num 12, Num 7, Num 0, Num 4, Num 100, Num 12, Num 95],
           [Str ''wave'', Num 3, Num 0, Num 1, Num 40, Num 9, Num 1, Num 5, Num 90, Num 17, Num 80]]
   \<and> csv_file (snd (batch_local_velocity demo_env script_settings [wave_stack]
      (start None Map.empty))) \<noteq>
     Some [header demo_env script_settings ''pixels/frame'',
           [Num 2, Num 1, Num 0, Num 12, Num 7, Num 0, Num 4, Num 100, Num 12, Num 95],
           [Num 3, Num 0, Num 1, Num 40, Num 9, Num 1, Num 5, Num 90, Num 17, Num 80]]"
  by (simp add: model_defs demo_defs)

text \<open>
  C2, amended: for every stack whose pass through the loop body completes, the program
  appends exactly one row per index of the returned \<open>velocities\<close>, in increasing index
  order, and the fields of row \<open>n\<close> are, in this order: the name of the stack, the velocity
  magnitude times the unit factor, forward wavevector x, forward wavevector y, crest x,
  crest y, frame number, the fitted peak position and intensity of frame t, the fitted peak
  position and intensity of frame t+1.
\<close>

theorem one_row_per_record:
  assumes ok: "process_stack env cfg factor s w = (None, w')"
      and tmp: "halfspan_tmp w' = Some h"
      and res: "local_velocity_analysis env (call_args cfg (pixels s) h) = Inr r"
      and csv: "csv_file w = Some old"
  shows "csv_file w' =
           Some (old @
             map (\<lambda>n. [Str (stem s), Num (velocities r ! n * factor),
                        Num (forward_wavevector_x r ! n), Num (forward_wavevector_y r ! n),
                        Num (crests_x r ! n), Num (crests_y r ! n), Num (framenr r ! n),
                        Num (max_x1 r ! n), Num (max_y1 r ! n),
                        Num (max_x2 r ! n), Num (max_y2 r ! n)])
               [0..<length (velocities r)])"
proof -
  from process_stack_completes [OF ok] tmp res
  have rng: "\<forall>n<length (velocities r). in_range r n" by auto
  have t: "tmp_after env cfg s (halfspan_tmp w) = Some h"
    using process_stack_halfspan_tmp [of env cfg factor s w] ok tmp by simp
  have "csv_file w' = Some (old @ appended (pass_events env cfg factor s (halfspan_tmp w)))"
    using process_stack_csv [OF csv, of env cfg factor s] ok by simp
  also have "appended (pass_events env cfg factor s (halfspan_tmp w)) =
      map (row_cells (stem s) factor r) [0..<length (velocities r)]"
    using rng by (simp add: pass_events_def t res rows_written_all)
  finally show ?thesis by (simp add: row_cells_def [abs_def])
qed

theorem one_row_per_record_witness:
  "process_stack demo_env script_settings 1 wave_stack (start (Some []) Map.empty) =
     (None, snd (process_stack demo_env script_settings 1 wave_stack (start (Some []) Map.empty)))
   \<and> halfspan_tmp (snd (process_stack demo_env script_settings 1 wave_stack
        (start (Some []) Map.empty))) = Some 10
   \<and> local_velocity_analysis demo_env
        (call_args script_settings (pixels wave_stack) 10) = Inr two_records
   \<and> csv_file (snd (process_stack demo_env script_settings 1 wave_stack
        (start (Some []) Map.empty))) =
       Some [[Str ''wave'', Num 2, Num 1, Num 0, Num 12, Num 7, Num 0, Num 4, Num 100, Num 12, Num 95],
             [Str ''wave'', Num 3, Num 0, Num 1, Num 40, Num 9, Num 1, Num 5, Num 90, Num 17, Num 80]]"
proof -
  let ?w = "start (Some []) Map.empty"
  let ?w' = "snd (process_stack demo_env script_settings 1 wave_stack ?w)"
  have ok: "process_stack demo_env script_settings 1 wave_stack ?w = (None, ?w')"
    by (simp add: model_defs demo_defs)
  have tmp: "halfspan_tmp ?w' = Some 10"
    by (simp add: model_defs demo_defs)
  have res: "local_velocity_analysis demo_env (call_args script_settings (pixels wave_stack) 10) =
      Inr two_records"
    by (simp add: model_defs demo_defs)
  have csv: "csv_file ?w = Some []"
    by (simp add: start_def)
  show ?thesis
    using one_row_per_record [OF ok tmp res csv] ok tmp res
    by (simp add: two_records_def wave_stack_def)
qed

section \<open>The order of the work\<close>

text \<open>
  C3: in every run, the events after the creation of the result file are, for the first
  \<open>k\<close> stacks, the events of a complete pass each (load, analysis, figure saved, then one
  row per index of \<open>velocities\<close> in increasing order), one stack after the other in the
  order of the directory listing. A run without an exception has \<open>k\<close> equal to the number
  of stacks and nothing else in its trace; a run stopped by an exception in the loop has
  begun exactly one more stack, the one that raised, and none after it. A run whose unit
  factor raises does nothing at all.
\<close>

theorem stacks_processed_one_after_another:
  "case unit_and_factor cfg of
     Inl e \<Rightarrow>
       trace (snd (batch_local_velocity env cfg stacks (start old_csv old_figs))) = []
   | Inr (unit, factor) \<Rightarrow>
       (\<exists>k rest. k \<le> length stacks \<and>
           trace (snd (batch_local_velocity env cfg stacks (start old_csv old_figs))) =
             CsvCreate (header env cfg unit) #
             concat (map (stack_events env cfg factor) (take k stacks)) @ rest \<and>
           (\<forall>s\<in>set (take k stacks).
              \<exists>r. local_velocity_analysis env (auto_args env cfg s) = Inr r) \<and>
           (fst (batch_local_velocity env cfg stacks (start old_csv old_figs)) = None \<longrightarrow>
              k = length stacks \<and> rest = []) \<and>
           (fst (batch_local_velocity env cfg stacks (start old_csv old_figs)) \<noteq> None \<longrightarrow>
              k < length stacks \<and>
              (\<exists>evs. rest = Imread (stem (stacks ! k)) # evs \<and> \<not> list_ex is_Imread evs)))"
proof (cases "unit_and_factor cfg")
  case (Inl e)
  then show ?thesis by (simp add: batch_failed_factor start_def)
next
  case (Inr uf)
  obtain u f where "uf = (u, f)" by (cases uf)
  with Inr have uf: "unit_and_factor cfg = Inr (u, f)" by simp
  show ?thesis
    using loop_events_decomp [of cfg None stacks env f]
    by (simp add: uf batch_trace [OF uf] batch_error [OF uf])
qed

theorem stacks_processed_one_after_another_witness:
  "unit_and_factor script_settings = Inr (''pixels/frame'', 1) \<and>
   fst (batch_local_velocity demo_env script_settings [wave_stack, wave_stack]
          (start None Map.empty)) = None \<and>
   (\<exists>k rest. k \<le> length [wave_stack, wave_stack] \<and>
           trace (snd (batch_local_velocity demo_env script_settings [wave_stack, wave_stack]
                    (start None Map.empty))) =
             CsvCreate (header demo_env script_settings ''pixels/frame'') #
             concat (map (stack_events demo_env script_settings 1)
                      (take k [wave_stack, wave_stack])) @ rest \<and>
           (\<forall>s\<in>set (take k [wave_stack, wave_stack]).
              \<exists>r. local_velocity_analysis demo_env (auto_args demo_env script_settings s) = Inr r) \<and>
           (fst (batch_local_velocity demo_env script_settings [wave_stack, wave_stack]
                  (start None Map.empty)) = None \<longrightarrow>
              k = length [wave_stack, wave_stack] \<and> rest = []) \<and>
           (fst (batch_local_velocity demo_env script_settings [wave_stack, wave_stack]
                  (start None Map.empty)) \<noteq> None \<longrightarrow>
              k < length [wave_stack, wave_stack] \<and>
              (\<exists>evs. rest = Imread (stem ([wave_stack, wave_stack] ! k)) # evs \<and>
                     \<not> list_ex is_Imread evs)))"
proof -
  have ok: "fst (batch_local_velocity demo_env script_settings [wave_stack, wave_stack]
          (start None Map.empty)) = None"
    by (simp add: model_defs demo_defs)
  have inst: "case unit_and_factor script_settings of
     Inl e \<Rightarrow>
       trace (snd (batch_local_velocity demo_env script_settings [wave_stack, wave_stack]
         (start None Map.empty))) = []
   | Inr (unit, factor) \<Rightarrow>
       (\<exists>k rest. k \<le> length [wave_stack, wave_stack] \<and>
           trace (snd (batch_local_velocity demo_env script_settings [wave_stack, wave_stack]
              (start None Map.empty))) =
             CsvCreate (header demo_env script_settings unit) #
             concat (map (stack_events demo_env script_settings factor)
               (take k [wave_stack, wave_stack])) @ rest \<and>
           (\<forall>s\<in>set (take k [wave_stack, wave_stack]).
              \<exists>r. local_velocity_analysis demo_env (auto_args demo_env script_settings s) = Inr r) \<and>
           (fst (batch_local_velocity demo_env script_settings [wave_stack, wave_stack]
              (start None Map.empty)) = None \<longrightarrow>
              k = length [wave_stack, wave_stack] \<and> rest = []) \<and>
           (fst (batch_local_velocity demo_env script_settings [wave_stack, wave_stack]
              (start None Map.empty)) \<noteq> None \<longrightarrow>
              k < length [wave_stack, wave_stack] \<and>
              (\<exists>evs. rest = Imread (stem ([wave_stack, wave_stack] ! k)) # evs \<and>
                 \<not> list_ex is_Imread evs)))"
    by (rule stacks_processed_one_after_another)
  have "\<exists>k rest. k \<le> length [wave_stack, wave_stack] \<and>
           trace (snd (batch_local_velocity demo_env script_settings [wave_stack, wave_stack]
                    (start None Map.empty))) =
             CsvCreate (header demo_env script_settings ''pixels/frame'') #
             concat (map (stack_events demo_env script_settings 1)
                      (take k [wave_stack, wave_stack])) @ rest \<and>
           (\<forall>s\<in>set (take k [wave_stack, wave_stack]).
              \<exists>r. local_velocity_analysis demo_env (auto_args demo_env script_settings s) = Inr r) \<and>
           (fst (batch_local_velocity demo_env script_settings [wave_stack, wave_stack]
                  (start None Map.empty)) = None \<longrightarrow>
              k = length [wave_stack, wave_stack] \<and> rest = []) \<and>
           (fst (batch_local_velocity demo_env script_settings [wave_stack, wave_stack]
                  (start None Map.empty)) \<noteq> None \<longrightarrow>
              k < length [wave_stack, wave_stack] \<and>
              (\<exists>evs. rest = Imread (stem ([wave_stack, wave_stack] ! k)) # evs \<and>
                     \<not> list_ex is_Imread evs))"
    using inst unfolding uf_script sum.case prod.case .
  with ok uf_script show ?thesis by blast
qed

section \<open>A run depends on the stacks and the settings only\<close>



section \<open>The direction of tracking\<close>

lemma pass_events_look_ahead:
  "Analyse a \<in> set (pass_events env cfg f s tmp) \<Longrightarrow> arg_look_ahead a = 1"
  by (auto simp add: pass_events_def call_args_def split: option.splits sum.splits)

lemma loop_events_look_ahead:
  "Analyse a \<in> set (loop_events env cfg f ss tmp) \<Longrightarrow> arg_look_ahead a = 1"
proof (induction ss arbitrary: tmp)
  case Nil
  then show ?case by simp
next
  case (Cons s ss)
  then show ?case
    by (auto simp add: pass_events_look_ahead split: option.splits)
qed

lemma analysis_calls_look_forward:
  "Analyse a \<in> set (trace (snd (batch_local_velocity env cfg stacks (start old_csv old_figs)))) \<Longrightarrow>
   arg_look_ahead a = 1"
proof (cases "unit_and_factor cfg")
  case (Inl e)
  then show "Analyse a \<in> set (trace (snd (batch_local_velocity env cfg stacks (start old_csv old_figs)))) \<Longrightarrow>
   arg_look_ahead a = 1"
    by (simp add: batch_failed_factor start_def)
next
  case (Inr uf)
  obtain u f where "uf = (u, f)" by (cases uf)
  with Inr have uf: "unit_and_factor cfg = Inr (u, f)" by simp
  show "Analyse a \<in> set (trace (snd (batch_local_velocity env cfg stacks (start old_csv old_figs)))) \<Longrightarrow>
   arg_look_ahead a = 1"
    by (simp add: batch_trace [OF uf] loop_events_look_ahead)
qed

text \<open>
  C5 as stated fails: no settings, collaborators, stacks or disk make the program call the
  analysis with \<open>look_ahead = -1\<close>. The script has no setting of that name; the keyword
  argument of line 120 is the literal \<open>1\<close>.
\<close>

theorem no_run_looks_backward:
  "\<not> (\<exists>env cfg stacks old_csv old_figs a.
        Analyse a \<in> set (trace (snd (batch_local_velocity env cfg stacks
                                        (start old_csv old_figs)))) \<and>
        arg_look_ahead a = - 1)"
proof
  assume "\<exists>env cfg stacks old_csv old_figs a.
        Analyse a \<in> set (trace (snd (batch_local_velocity env cfg stacks
                                        (start old_csv old_figs)))) \<and>
        arg_look_ahead a = - 1"
  then obtain env cfg stacks old_csv old_figs a where
    a: "Analyse a \<in> set (trace (snd (batch_local_velocity env cfg stacks
                                        (start old_csv old_figs))))"
    and neg: "arg_look_ahead a = - 1"
    by blast
  from analysis_calls_look_forward [OF a] neg show False by simp
qed

text \<open>
  C5, amended: \<open>look_ahead\<close> is an argument of \<open>local_velocity_analysis\<close>, where \<open>1\<close>
  selects forward and \<open>-1\<close> backward tracking, and it is not a setting of the batch
  program: in every run, every call of the analysis is made with \<open>look_ahead = 1\<close>.
\<close>

theorem every_call_looks_forward:
  "\<forall>ev\<in>set (trace (snd (batch_local_velocity env cfg stacks (start old_csv old_figs)))).
     \<forall>a. ev = Analyse a \<longrightarrow> arg_look_ahead a = 1"
  using analysis_calls_look_forward by blast

theorem every_call_looks_forward_witness:
  "Analyse (auto_args demo_env script_settings wave_stack) \<in>
     set (trace (snd (batch_local_velocity demo_env script_settings [wave_stack]
                        (start None Map.empty)))) \<and>
   arg_look_ahead (auto_args demo_env script_settings wave_stack) = 1"
proof -
  have m: "Analyse (auto_args demo_env script_settings wave_stack) \<in>
     set (trace (snd (batch_local_velocity demo_env script_settings [wave_stack]
                        (start None Map.empty))))"
    by (simp add: model_defs demo_defs auto_args_def)
  show ?thesis
    using every_call_looks_forward [of demo_env script_settings "[wave_stack]" None Map.empty] m
    by blast
qed

section \<open>Reading the result sequences\<close>

text \<open>
  C6: if the nine other sequences returned for a stack have the length of \<open>velocities\<close>,
  then for every \<open>n\<close> below that length each of the ten accesses of the writing loop is
  in bounds, and the loop over \<open>range(velocities.size)\<close> ends without \<open>IndexError\<close>.
\<close>

theorem aligned_sequences_are_read_in_bounds:
  assumes "length (forward_wavevector_x r) = length (velocities r)"
      and "length (forward_wavevector_y r) = length (velocities r)"
      and "length (crests_x r) = length (velocities r)"
      and "length (crests_y r) = length (velocities r)"
      and "length (framenr r) = length (velocities r)"
      and "length (max_x1 r) = length (velocities r)"
      and "length (max_y1 r) = length (velocities r)"
      and "length (max_x2 r) = length (velocities r)"
      and "length (max_y2 r) = length (velocities r)"
  shows "(\<forall>n<length (velocities r).
            item (velocities r) n = Inr (velocities r ! n) \<and>
            item (forward_wavevector_x r) n = Inr (forward_wavevector_x r ! n) \<and>
            item (forward_wavevector_y r) n = Inr (forward_wavevector_y r ! n) \<and>
            item (crests_x r) n = Inr (crests_x r ! n) \<and>
            item (crests_y r) n = Inr (crests_y r ! n) \<and>
            item (framenr r) n = Inr (framenr r ! n) \<and>
            item (max_x1 r) n = Inr (max_x1 r ! n) \<and>
            item (max_y1 r) n = Inr (max_y1 r ! n) \<and>
            item (max_x2 r) n = Inr (max_x2 r ! n) \<and>
            item (max_y2 r) n = Inr (max_y2 r ! n)) \<and>
         fst (write_rows stackname factor r [0..<length (velocities r)] w) = None"
proof -
  have rng: "\<forall>n\<in>set [0..<length (velocities r)]. in_range r n"
    using assms by (simp add: in_range_def)
  have "fst (write_rows stackname factor r [0..<length (velocities r)] w) = None"
    using rng by (simp add: write_rows_error)
  then show ?thesis
    using assms by (simp add: item_def)
qed

theorem aligned_sequences_are_read_in_bounds_witness:
  "length (forward_wavevector_x two_records) = length (velocities two_records) \<and>
   length (forward_wavevector_y two_records) = length (velocities two_records) \<and>
   length (crests_x two_records) = length (velocities two_records) \<and>
   length (crests_y two_records) = length (velocities two_records) \<and>
   length (framenr two_records) = length (velocities two_records) \<and>
   length (max_x1 two_records) = length (velocities two_records) \<and>
   length (max_y1 two_records) = length (velocities two_records) \<and>
   length (max_x2 two_records) = length (velocities two_records) \<and>
   length (max_y2 two_records) = length (velocities two_records) \<and>
   item (max_y2 two_records) 1 = Inr 80 \<and>
   fst (write_rows ''wave'' 1 two_records [0..<length (velocities two_records)]
          (start (Some []) Map.empty)) = None"
proof -
  have l: "length (forward_wavevector_x two_records) = length (velocities two_records)"
    "length (forward_wavevector_y two_records) = length (velocities two_records)"
    "length (crests_x two_records) = length (velocities two_records)"
    "length (crests_y two_records) = length (velocities two_records)"
    "length (framenr two_records) = length (velocities two_records)"
    "length (max_x1 two_records) = length (velocities two_records)"
    "length (max_y1 two_records) = length (velocities two_records)"
    "length (max_x2 two_records) = length (velocities two_records)"
    "length (max_y2 two_records) = length (velocities two_records)"
    by (simp_all add: two_records_def)
  have n: "1 < length (velocities two_records)" "max_y2 two_records ! 1 = 80"
    by (simp_all add: two_records_def)
  from aligned_sequences_are_read_in_bounds [OF l, of "''wave''" 1 "start (Some []) Map.empty"]
  have "item (max_y2 two_records) 1 = Inr (max_y2 two_records ! 1)"
    and "fst (write_rows ''wave'' 1 two_records [0..<length (velocities two_records)]
          (start (Some []) Map.empty)) = None"
    using n(1) by blast+
  then show ?thesis using l n(2) by simp
qed

section \<open>An exception of the analysis\<close>

text \<open>
  A loop over two lists of stacks is the loop over the first, continued from the world it
  leaves behind when it raised nothing. So the world after \<open>k\<close> passes of a run is the
  world after the run over the first \<open>k\<close> stacks.
\<close>

lemma stack_loop_append:
  "stack_loop env cfg f (xs @ ys) w =
     (case stack_loop env cfg f xs w of
        (Some e, w') \<Rightarrow> (Some e, w')
      | (None, w') \<Rightarrow> stack_loop env cfg f ys w')"
  by (induction xs arbitrary: w) (simp_all split: prod.split option.split)

text \<open>
  C8 as stated fails: after an analysis that refuses a stack, the other stacks of the batch
  are not left unaffected. With the one-frame stack \<open>short\<close> listed before \<open>wave\<close>, the run
  ends with the exception of the analysis, \<open>wave\<close> is never loaded and the file holds the
  header alone; run on its own, \<open>wave\<close> gives two rows.
\<close>

theorem analysis_error_ends_the_batch_example:
  "fst (batch_local_velocity demo_env script_settings [short_stack, wave_stack]
          (start None Map.empty)) =
     Some (AnalysisError ''frames_to_analyse exceeds stack length'') \<and>
   csv_file (snd (batch_local_velocity demo_env script_settings [short_stack, wave_stack]
          (start None Map.empty))) =
     Some [header demo_env script_settings ''pixels/frame''] \<and>
   Imread ''wave'' \<notin> set (trace (snd (batch_local_velocity demo_env script_settings
          [short_stack, wave_stack] (start None Map.empty)))) \<and>
   csv_file (snd (batch_local_velocity demo_env script_settings [wave_stack]
          (start None Map.empty))) =
     Some [header demo_env script_settings ''pixels/frame'',
           [Str ''wave'', Num 2, Num 1, Num 0, Num 12, Num 7, Num 0, Num 4, Num 100, Num 12, Num 95],
           [Str ''wave'', Num 3, Num 0, Num 1, Num 40, Num 9, Num 1, Num 5, Num 90, Num 17, Num 80]]"
  by (simp add: model_defs demo_defs)

text \<open>
  C8, amended: if the analysis raises for a stack, the exception reaches the caller of the
  batch program and nothing is emitted for that stack: no figure is saved and no row is
  written, the rows and figures of the stacks before it stay as they are, and no stack
  after it is processed. The script has no \<open>try\<close> and checks no setting itself.
\<close>

theorem analysis_error_ends_the_batch:
  assumes uf: "unit_and_factor cfg = Inr (unit, factor)"
      and auto: "halfspan cfg = None"
      and before: "batch_local_velocity env cfg before (start old_csv old_figs) = (None, w)"
      and raises: "local_velocity_analysis env (auto_args env cfg s) = Inl e"
  shows "batch_local_velocity env cfg (before @ s # after) (start old_csv old_figs) =
           (Some e,
            w\<lparr>halfspan_tmp := Some (get_auto_halfspan env (pixels s) (frames_to_analyse cfg)),
              trace := trace w @ [Imread (stem s), Analyse (auto_args env cfg s)]\<rparr>)"
proof -
  let ?w0 = "create_csv (header env cfg unit) (start old_csv old_figs)"
  have b: "stack_loop env cfg factor before ?w0 = (None, w)"
    using before by (simp add: batch_local_velocity_def uf)
  have p: "process_stack env cfg factor s w =
      (Some e,
       w\<lparr>halfspan_tmp := Some (get_auto_halfspan env (pixels s) (frames_to_analyse cfg)),
         trace := trace w @ [Imread (stem s), Analyse (auto_args env cfg s)]\<rparr>)"
    using raises
    by (simp add: process_stack_def bind_halfspan_tmp_def auto emit_def Let_def auto_args_def)
  show ?thesis
    by (simp add: batch_local_velocity_def uf stack_loop_append b p)
qed

theorem analysis_error_ends_the_batch_witness:
  "unit_and_factor script_settings = Inr (''pixels/frame'', 1) \<and>
   halfspan script_settings = None \<and>
   fst (batch_local_velocity demo_env script_settings [wave_stack] (start None Map.empty)) = None \<and>
   local_velocity_analysis demo_env (auto_args demo_env script_settings short_stack) =
     Inl (AnalysisError ''frames_to_analyse exceeds stack length'') \<and>
   batch_local_velocity demo_env script_settings ([wave_stack] @ short_stack # [wave_stack])
       (start None Map.empty) =
     (Some (AnalysisError ''frames_to_analyse exceeds stack length''),
      (snd (batch_local_velocity demo_env script_settings [wave_stack] (start None Map.empty)))
        \<lparr>halfspan_tmp :=
           Some (get_auto_halfspan demo_env (pixels short_stack)
                   (frames_to_analyse script_settings)),
         trace :=
           trace (snd (batch_local_velocity demo_env script_settings [wave_stack]
                         (start None Map.empty))) @
           [Imread (stem short_stack), Analyse (auto_args demo_env script_settings short_stack)]\<rparr>)"
proof -
  let ?w = "snd (batch_local_velocity demo_env script_settings [wave_stack] (start None Map.empty))"
  have auto: "halfspan script_settings = None"
    by (simp add: script_settings_def)
  have ok: "fst (batch_local_velocity demo_env script_settings [wave_stack]
      (start None Map.empty)) = None"
    by (simp add: model_defs demo_defs)
  then have before: "batch_local_velocity demo_env script_settings [wave_stack]
      (start None Map.empty) = (None, ?w)"
    by (simp add: prod_eq_iff)
  have raises: "local_velocity_analysis demo_env (auto_args demo_env script_settings short_stack) =
     Inl (AnalysisError ''frames_to_analyse exceeds stack length'')"
    by (simp add: demo_defs auto_args_def call_args_def)
  show ?thesis
    using analysis_error_ends_the_batch [OF uf_script auto before raises, of "[wave_stack]"]
      uf_script auto ok raises
    by simp
qed

section \<open>The unit factor\<close>



section \<open>The result file\<close>

lemma is_data_row_row_cells: "is_data_row (row_cells name f r n)"
  by (simp add: row_cells_def)

lemma rows_written_data_rows: "list_all is_data_row (rows_written name f r ns)"
  by (induction ns) (simp_all add: is_data_row_row_cells)

lemma pass_events_data_rows: "list_all is_data_row (appended (pass_events env cfg f s tmp))"
  by (simp add: pass_events_def rows_written_data_rows split: option.split sum.split)

lemma pass_events_no_create: "\<not> list_ex is_CsvCreate (pass_events env cfg f s tmp)"
  by (auto simp add: pass_events_def list_ex_iff split: option.split sum.split)

lemma loop_events_data_rows: "list_all is_data_row (appended (loop_events env cfg f ss tmp))"
  by (induction ss arbitrary: tmp) (simp_all add: pass_events_data_rows split: option.split)

lemma loop_events_no_create: "\<not> list_ex is_CsvCreate (loop_events env cfg f ss tmp)"
  by (induction ss arbitrary: tmp) (simp_all add: pass_events_no_create split: option.split)

text \<open>
  C10 as stated fails: not every run creates the result file. With \<open>nmperpix = 100\<close> and
  \<open>frpermin = 0\<close> the division \<open>60 / frpermin\<close> of line 58 raises before line 76 is
  reached: no file is created and nothing else happens.
\<close>

theorem no_file_when_the_factor_raises:
  "fst (batch_local_velocity demo_env
          (script_settings\<lparr>nmperpix := Some 100, frpermin := Some 0\<rparr>) [wave_stack]
          (start None Map.empty)) = Some ZeroDivisionError \<and>
   csv_file (snd (batch_local_velocity demo_env
          (script_settings\<lparr>nmperpix := Some 100, frpermin := Some 0\<rparr>) [wave_stack]
          (start None Map.empty))) = None \<and>
   trace (snd (batch_local_velocity demo_env
          (script_settings\<lparr>nmperpix := Some 100, frpermin := Some 0\<rparr>) [wave_stack]
          (start None Map.empty))) = []"
  by (simp add: model_defs demo_defs)

text \<open>
  C10, amended: on every run that gets past the unit factor (one of \<open>nmperpix\<close>,
  \<open>frpermin\<close> is \<open>None\<close>, or \<open>frpermin\<close> is not zero), the result file is created,
  losing any old content, exactly once and before any stack is processed, with one header
  row of eleven columns, which is not a data row; every pass only appends data rows. After
  any number \<open>k\<close> of passes, zero included, the file is the header followed by the data
  rows appended so far, in the order they were written.
\<close>

theorem one_header_then_data_rows:
  assumes uf: "unit_and_factor cfg = Inr (unit, factor)"
  shows "length (header env cfg unit) = 11 \<and>
         \<not> is_data_row (header env cfg unit) \<and>
         (\<forall>k. \<exists>evs.
            trace (snd (batch_local_velocity env cfg (take k stacks) (start old_csv old_figs))) =
              CsvCreate (header env cfg unit) # evs \<and>
            \<not> list_ex is_CsvCreate evs \<and>
            csv_file (snd (batch_local_velocity env cfg (take k stacks) (start old_csv old_figs))) =
              Some (header env cfg unit # appended evs) \<and>
            list_all is_data_row (appended evs))"
proof -
  have len: "length (header env cfg unit) = 11" "\<not> is_data_row (header env cfg unit)"
    by (simp_all add: header_def)
  have "\<exists>evs.
            trace (snd (batch_local_velocity env cfg (take k stacks) (start old_csv old_figs))) =
              CsvCreate (header env cfg unit) # evs \<and>
            \<not> list_ex is_CsvCreate evs \<and>
            csv_file (snd (batch_local_velocity env cfg (take k stacks) (start old_csv old_figs))) =
              Some (header env cfg unit # appended evs) \<and>
            list_all is_data_row (appended evs)" for k
    by (rule exI [of _ "loop_events env cfg factor (take k stacks) None"])
       (simp add: batch_trace [OF uf] batch_csv [OF uf] loop_events_no_create
          loop_events_data_rows)
  with len show ?thesis by blast
qed

theorem one_header_then_data_rows_witness:
  "unit_and_factor script_settings = Inr (''pixels/frame'', 1) \<and>
   length (header demo_env script_settings ''pixels/frame'') = 11 \<and>
   \<not> is_data_row (header demo_env script_settings ''pixels/frame'') \<and>
   (\<forall>k. \<exists>evs.
      trace (snd (batch_local_velocity demo_env script_settings
                    (take k [wave_stack, wave_stack]) (start None Map.empty))) =
        CsvCreate (header demo_env script_settings ''pixels/frame'') # evs \<and>
      \<not> list_ex is_CsvCreate evs \<and>
      csv_file (snd (batch_local_velocity demo_env script_settings
                       (take k [wave_stack, wave_stack]) (start None Map.empty))) =
        Some (header demo_env script_settings ''pixels/frame'' # appended evs) \<and>
      list_all is_data_row (appended evs))"
  using one_header_then_data_rows [OF uf_script, of demo_env "[wave_stack, wave_stack]"
      None Map.empty] uf_script
  by blast

end
